theory Spec2Isabelle
  imports Main "HOL-Library.Sublist"
begin

section \<open>The font-processing driver \<^verbatim>\<open>tools/process_font.py\<close>\<close>

text \<open>
  The script has one function, \<^verbatim>\<open>main\<close>. It reads \<^verbatim>\<open>sys.argv\<close>, calls three operations of
  the fontTools library (\<^verbatim>\<open>TTFont(path)\<close>, \<^verbatim>\<open>removeOverlaps(font)\<close>, \<^verbatim>\<open>font.save(path)\<close>),
  prints to standard output and ends either by returning or through \<^verbatim>\<open>sys.exit(1)\<close>.

  The library is not part of the repository: it is a parameter of the model, a record of
  three functions that thread the filesystem and return either the exception they raise
  or their result. The console is a parameter too: it decides whether a \<^verbatim>\<open>print\<close> inside
  the \<^verbatim>\<open>try\<close> block writes its line or raises.
\<close>

subsection \<open>Exceptions\<close>

text \<open>
  \<^verbatim>\<open>except Exception as e\<close> tells two kinds of raised objects apart: instances of
  \<^verbatim>\<open>Exception\<close>, and instances of \<^verbatim>\<open>BaseException\<close> that are not instances of
  \<^verbatim>\<open>Exception\<close> (\<^verbatim>\<open>KeyboardInterrupt\<close>, \<^verbatim>\<open>SystemExit\<close>, \<^verbatim>\<open>GeneratorExit\<close>). Each carries the
  text that \<^verbatim>\<open>str(e)\<close> gives, which is what the f-string \<^verbatim>\<open>{e}\<close> formats.
\<close>

datatype pyexn = Exception string | NonException string

fun message :: "pyexn \<Rightarrow> string" where
  "message (Exception m) = m"
| "message (NonException m) = m"

fun is_Exception :: "pyexn \<Rightarrow> bool" where
  "is_Exception (Exception m) = True"
| "is_Exception (NonException m) = False"

text \<open>The exception a call ended with, if any.\<close>

fun exception_of :: "pyexn + 'a \<Rightarrow> pyexn option" where
  "exception_of (Inl e) = Some e"
| "exception_of (Inr x) = None"

subsection \<open>The filesystem and the library\<close>

text \<open>The filesystem maps a path to the bytes of the file there.\<close>

type_synonym fs = "string \<rightharpoonup> string"

text \<open>
  \<^verbatim>\<open>TTFont(path)\<close> returns a font document or raises; \<^verbatim>\<open>removeOverlaps(font)\<close> mutates the
  document in place (the model returns the mutated document) or raises; \<^verbatim>\<open>font.save(path)\<close>
  returns \<^verbatim>\<open>None\<close> or raises. Each may change the filesystem, also when it raises: a save
  that fails partway leaves what it wrote.
\<close>

record 'f library =
  TTFont :: "string \<Rightarrow> fs \<Rightarrow> (pyexn + 'f) \<times> fs"
  removeOverlaps :: "'f \<Rightarrow> fs \<Rightarrow> (pyexn + 'f) \<times> fs"
  save :: "'f \<Rightarrow> string \<Rightarrow> fs \<Rightarrow> (pyexn + unit) \<times> fs"

subsection \<open>The console\<close>

text \<open>
  \<^verbatim>\<open>print(text)\<close> writes the text to standard output, or raises: \<^verbatim>\<open>UnicodeEncodeError\<close>
  when the text has a character that the encoding of the console lacks (a path, say),
  \<^verbatim>\<open>BrokenPipeError\<close> or another \<^verbatim>\<open>OSError\<close> when the stream is gone. All of these are
  instances of \<^verbatim>\<open>Exception\<close>. The console maps a text to \<open>None\<close> when it is written, and to
  the text of the exception when \<^verbatim>\<open>print\<close> raises. The four lines printed inside the \<^verbatim>\<open>try\<close>
  block are pairwise different texts, so a console can let any one of them be the first
  to fail.
\<close>

type_synonym console = "string \<Rightarrow> string option"

subsection \<open>Observable events\<close>

text \<open>
  What a run does, in order: each \<^verbatim>\<open>print\<close> call that wrote its text (Python ends it with
  a newline), and each library call with the exception it raised, if any.
\<close>

datatype event =
    Printed string
  | Load string "pyexn option"
  | RemoveOverlaps "pyexn option"
  | Save string "pyexn option"

text \<open>
  How \<^verbatim>\<open>main\<close> ends: it returns, it raises \<^verbatim>\<open>SystemExit\<close> through \<^verbatim>\<open>sys.exit\<close>, or an
  exception it does not catch leaves it.
\<close>

datatype outcome = Returned | SystemExit int | Raised pyexn

record run =
  outcome :: outcome
  trace :: "event list"
  world :: fs

text \<open>
  The exit code of the process. The script calls \<^verbatim>\<open>main()\<close> as its last statement, so a
  return ends the process with code 0, and \<^verbatim>\<open>sys.exit(n)\<close> with code \<open>n\<close>. When an
  exception leaves \<^verbatim>\<open>main\<close>, the interpreter chooses the code, not the script.
\<close>

fun exit_code :: "outcome \<Rightarrow> int option" where
  "exit_code Returned = Some 0"
| "exit_code (SystemExit n) = Some n"
| "exit_code (Raised e) = None"

text \<open>Standard output: the texts of the \<^verbatim>\<open>print\<close> calls, in order.\<close>

fun stdout :: "event list \<Rightarrow> string list" where
  "stdout [] = []"
| "stdout (Printed s # tr) = s # stdout tr"
| "stdout (Load p r # tr) = stdout tr"
| "stdout (RemoveOverlaps r # tr) = stdout tr"
| "stdout (Save p r # tr) = stdout tr"

text \<open>The library operations invoked, in order, without the \<^verbatim>\<open>print\<close> calls.\<close>

fun is_call :: "event \<Rightarrow> bool" where
  "is_call (Printed s) = False"
| "is_call (Load p r) = True"
| "is_call (RemoveOverlaps r) = True"
| "is_call (Save p r) = True"

definition calls :: "event list \<Rightarrow> event list" where
  "calls tr = filter is_call tr"

text \<open>The exception a library call raised, if any.\<close>

fun failure :: "event \<Rightarrow> pyexn option" where
  "failure (Printed s) = None"
| "failure (Load p r) = r"
| "failure (RemoveOverlaps r) = r"
| "failure (Save p r) = r"

subsection \<open>The driver\<close>

definition usage :: string where
  "usage = ''Usage: python process_font.py <input_ttf> <output_ttf>''"

text \<open>
  A \<^verbatim>\<open>print\<close> inside the \<^verbatim>\<open>try\<close> block, after the events \<open>t\<close>: the line is added to the
  events, or the statement raises and the rest of the block is skipped.
\<close>

definition print_py :: "console \<Rightarrow> event list \<Rightarrow> string \<Rightarrow> pyexn + event list" where
  "print_py con t s =
     (case con s of
        None \<Rightarrow> Inr (t @ [Printed s])
      | Some m \<Rightarrow> Inl (Exception m))"

text \<open>
  The body of the \<^verbatim>\<open>try\<close> block (lines 23 to 29), statement by statement. It ends with
  the exception that a \<^verbatim>\<open>print\<close> or a library call raised, or normally after the last
  \<^verbatim>\<open>print\<close>.
\<close>

definition try_body ::
    "console \<Rightarrow> 'f library \<Rightarrow> string \<Rightarrow> string \<Rightarrow> fs \<Rightarrow> (pyexn + unit) \<times> event list \<times> fs" where
  "try_body con lib input_path output_path w0 =
     (case print_py con [] (''-- Loading font: '' @ input_path) of
        Inl e \<Rightarrow> (Inl e, [], w0)
      | Inr t1 \<Rightarrow>
     (case TTFont lib input_path w0 of
        (Inl e, w1) \<Rightarrow> (Inl e, t1 @ [Load input_path (Some e)], w1)
      | (Inr font, w1) \<Rightarrow>
     (case print_py con (t1 @ [Load input_path None])
             ''-- Removing overlaps (this may take a moment)...'' of
        Inl e \<Rightarrow> (Inl e, t1 @ [Load input_path None], w1)
      | Inr t2 \<Rightarrow>
     (case removeOverlaps lib font w1 of
        (Inl e, w2) \<Rightarrow> (Inl e, t2 @ [RemoveOverlaps (Some e)], w2)
      | (Inr font', w2) \<Rightarrow>
     (case print_py con (t2 @ [RemoveOverlaps None]) (''-- Saving to: '' @ output_path) of
        Inl e \<Rightarrow> (Inl e, t2 @ [RemoveOverlaps None], w2)
      | Inr t3 \<Rightarrow>
     (case save lib font' output_path w2 of
        (Inl e, w3) \<Rightarrow> (Inl e, t3 @ [Save output_path (Some e)], w3)
      | (Inr u, w3) \<Rightarrow>
     (case print_py con (t3 @ [Save output_path None]) ''-- Done.'' of
        Inl e \<Rightarrow> (Inl e, t3 @ [Save output_path None], w3)
      | Inr t4 \<Rightarrow> (Inr (), t4, w3))))))))"

text \<open>
  \<^verbatim>\<open>main\<close> (lines 14 to 33). \<open>argv\<close> is \<^verbatim>\<open>sys.argv\<close>: the script name, then the
  positional arguments. \<^verbatim>\<open>sys.exit(1)\<close> on line 17 is outside the \<^verbatim>\<open>try\<close>, and the
  handler on line 31 catches instances of \<^verbatim>\<open>Exception\<close> only, whether a library call
  or a \<^verbatim>\<open>print\<close> of the block raised them.

  The two lines printed outside the \<^verbatim>\<open>try\<close> block, the usage line (line 16) and the
  handler's line (line 32), are taken as written: a \<^verbatim>\<open>print\<close> that raises there would
  leave \<^verbatim>\<open>main\<close> with its exception, which is outside what is modelled here.
\<close>

definition main :: "console \<Rightarrow> 'f library \<Rightarrow> string list \<Rightarrow> fs \<Rightarrow> run" where
  "main con lib argv w =
     (if length argv \<noteq> 3 then
        \<lparr>outcome = SystemExit 1, trace = [Printed usage], world = w\<rparr>
      else
        (let input_path = argv ! 1; output_path = argv ! 2 in
         case try_body con lib input_path output_path w of
           (Inr u, t, w') \<Rightarrow> \<lparr>outcome = Returned, trace = t, world = w'\<rparr>
         | (Inl (Exception m), t, w') \<Rightarrow>
             \<lparr>outcome = SystemExit 1,
              trace = t @ [Printed (''Error processing font: '' @ m)],
              world = w'\<rparr>
         | (Inl (NonException m), t, w') \<Rightarrow>
             \<lparr>outcome = Raised (NonException m), trace = t, world = w'\<rparr>))"

subsection \<open>A stand-in library and consoles for concrete runs\<close>

text \<open>
  A library whose documents are the bytes of the file. Each of the three arguments makes
  the matching operation raise the given exception; without it, loading fails on a path
  that has no file, overlap removal rewrites the document, and saving writes it. A save
  that raises has already written the first byte.
\<close>

definition stub :: "pyexn option \<Rightarrow> pyexn option \<Rightarrow> pyexn option \<Rightarrow> string library" where
  "stub r1 r2 r3 =
     \<lparr>TTFont = (\<lambda>p w. case r1 of
                  Some e \<Rightarrow> (Inl e, w)
                | None \<Rightarrow> (case w p of
                            None \<Rightarrow> (Inl (Exception (''No such file: '' @ p)), w)
                          | Some b \<Rightarrow> (Inr b, w))),
      removeOverlaps = (\<lambda>f w. case r2 of
                  Some e \<Rightarrow> (Inl e, w)
                | None \<Rightarrow> (Inr (remdups f), w)),
      save = (\<lambda>f p w. case r3 of
                  Some e \<Rightarrow> (Inl e, w(p \<mapsto> take 1 f))
                | None \<Rightarrow> (Inr (), w(p \<mapsto> f)))\<rparr>"

text \<open>A console that writes every line, and one that raises on a single text.\<close>

definition accepting :: console where
  "accepting s = None"


definition demo_fs :: fs where
  "demo_fs = [''in.ttf'' \<mapsto> ''glyff'']"

definition demo_argv :: "string list" where
  "demo_argv = [''process_font.py'', ''in.ttf'', ''out.ttf'']"



text \<open>Shorthand for the lines of the script and for what the handler does with \<open>e\<close>.\<close>

abbreviation loading :: "string \<Rightarrow> string" where
  "loading p \<equiv> ''-- Loading font: '' @ p"

abbreviation removing :: string where
  "removing \<equiv> ''-- Removing overlaps (this may take a moment)...''"

abbreviation saving :: "string \<Rightarrow> string" where
  "saving p \<equiv> ''-- Saving to: '' @ p"

abbreviation finished :: string where
  "finished \<equiv> ''-- Done.''"

abbreviation error_line :: "string \<Rightarrow> string" where
  "error_line m \<equiv> ''Error processing font: '' @ m"

abbreviation report :: "pyexn \<Rightarrow> event list" where
  "report e \<equiv> (if is_Exception e then [Printed (error_line (message e))] else [])"

abbreviation ending :: "pyexn \<Rightarrow> outcome" where
  "ending e \<equiv> (if is_Exception e then SystemExit 1 else Raised e)"

section \<open>The ways a run goes\<close>

lemma main_usage:
  assumes "length argv \<noteq> 3"
  shows "main con lib argv w = \<lparr>outcome = SystemExit 1, trace = [Printed usage], world = w\<rparr>"
  using assms by (simp add: main_def)

lemma two_positional: "(length (tl argv) = 2) = (length argv = 3)"
  by auto

lemma main_loading_print_raises:
  assumes "length argv = 3" and "con (loading (argv ! 1)) = Some m"
  shows "main con lib argv w =
     \<lparr>outcome = SystemExit 1, trace = [Printed (error_line m)], world = w\<rparr>"
  using assms by (simp add: main_def try_body_def print_py_def Let_def)

lemma main_load_raises:
  assumes "length argv = 3" and "con (loading (argv ! 1)) = None"
    and "TTFont lib (argv ! 1) w = (Inl e, w1)"
  shows "main con lib argv w =
     \<lparr>outcome = ending e,
      trace = [Printed (loading (argv ! 1)), Load (argv ! 1) (Some e)] @ report e,
      world = w1\<rparr>"
  using assms by (cases e) (simp_all add: main_def try_body_def print_py_def Let_def)

lemma main_removing_print_raises:
  assumes "length argv = 3" and "con (loading (argv ! 1)) = None"
    and "TTFont lib (argv ! 1) w = (Inr f, w1)"
    and "con removing = Some m"
  shows "main con lib argv w =
     \<lparr>outcome = SystemExit 1,
      trace = [Printed (loading (argv ! 1)), Load (argv ! 1) None, Printed (error_line m)],
      world = w1\<rparr>"
  using assms by (simp add: main_def try_body_def print_py_def Let_def)

lemma main_overlaps_raise:
  assumes "length argv = 3" and "con (loading (argv ! 1)) = None"
    and "TTFont lib (argv ! 1) w = (Inr f, w1)"
    and "con removing = None"
    and "removeOverlaps lib f w1 = (Inl e, w2)"
  shows "main con lib argv w =
     \<lparr>outcome = ending e,
      trace = [Printed (loading (argv ! 1)), Load (argv ! 1) None,
               Printed removing, RemoveOverlaps (Some e)] @ report e,
      world = w2\<rparr>"
  using assms by (cases e) (simp_all add: main_def try_body_def print_py_def Let_def)

lemma main_saving_print_raises:
  assumes "length argv = 3" and "con (loading (argv ! 1)) = None"
    and "TTFont lib (argv ! 1) w = (Inr f, w1)"
    and "con removing = None"
    and "removeOverlaps lib f w1 = (Inr f', w2)"
    and "con (saving (argv ! 2)) = Some m"
  shows "main con lib argv w =
     \<lparr>outcome = SystemExit 1,
      trace = [Printed (loading (argv ! 1)), Load (argv ! 1) None,
               Printed removing, RemoveOverlaps None, Printed (error_line m)],
      world = w2\<rparr>"
  using assms by (simp add: main_def try_body_def print_py_def Let_def)

lemma main_save_raises:
  assumes "length argv = 3" and "con (loading (argv ! 1)) = None"
    and "TTFont lib (argv ! 1) w = (Inr f, w1)"
    and "con removing = None"
    and "removeOverlaps lib f w1 = (Inr f', w2)"
    and "con (saving (argv ! 2)) = None"
    and "save lib f' (argv ! 2) w2 = (Inl e, w3)"
  shows "main con lib argv w =
     \<lparr>outcome = ending e,
      trace = [Printed (loading (argv ! 1)), Load (argv ! 1) None,
               Printed removing, RemoveOverlaps None,
               Printed (saving (argv ! 2)), Save (argv ! 2) (Some e)] @ report e,
      world = w3\<rparr>"
  using assms by (cases e) (simp_all add: main_def try_body_def print_py_def Let_def)

lemma main_finished_print_raises:
  assumes "length argv = 3" and "con (loading (argv ! 1)) = None"
    and "TTFont lib (argv ! 1) w = (Inr f, w1)"
    and "con removing = None"
    and "removeOverlaps lib f w1 = (Inr f', w2)"
    and "con (saving (argv ! 2)) = None"
    and "save lib f' (argv ! 2) w2 = (Inr (), w3)"
    and "con finished = Some m"
  shows "main con lib argv w =
     \<lparr>outcome = SystemExit 1,
      trace = [Printed (loading (argv ! 1)), Load (argv ! 1) None,
               Printed removing, RemoveOverlaps None,
               Printed (saving (argv ! 2)), Save (argv ! 2) None, Printed (error_line m)],
      world = w3\<rparr>"
  using assms by (simp add: main_def try_body_def print_py_def Let_def)

lemma main_saved:
  assumes "length argv = 3" and "con (loading (argv ! 1)) = None"
    and "TTFont lib (argv ! 1) w = (Inr f, w1)"
    and "con removing = None"
    and "removeOverlaps lib f w1 = (Inr f', w2)"
    and "con (saving (argv ! 2)) = None"
    and "save lib f' (argv ! 2) w2 = (Inr (), w3)"
    and "con finished = None"
  shows "main con lib argv w =
     \<lparr>outcome = Returned,
      trace = [Printed (loading (argv ! 1)), Load (argv ! 1) None,
               Printed removing, RemoveOverlaps None,
               Printed (saving (argv ! 2)), Save (argv ! 2) None, Printed finished],
      world = w3\<rparr>"
  using assms by (simp add: main_def try_body_def print_py_def Let_def)

text \<open>
  Every run with two arguments goes one of eight ways: one of the four prints of the
  block raises, one of the three library calls raises, or the block ends normally.
\<close>

lemma run_shapes:
  assumes "length argv = 3"
  shows "(\<exists>m. con (loading (argv ! 1)) = Some m
            \<and> main con lib argv w =
                \<lparr>outcome = SystemExit 1, trace = [Printed (error_line m)], world = w\<rparr>)
       \<or> (\<exists>e w1. con (loading (argv ! 1)) = None
            \<and> TTFont lib (argv ! 1) w = (Inl e, w1)
            \<and> main con lib argv w =
                \<lparr>outcome = ending e,
                 trace = [Printed (loading (argv ! 1)), Load (argv ! 1) (Some e)] @ report e,
                 world = w1\<rparr>)
       \<or> (\<exists>f w1 m. con (loading (argv ! 1)) = None
            \<and> TTFont lib (argv ! 1) w = (Inr f, w1)
            \<and> con removing = Some m
            \<and> main con lib argv w =
                \<lparr>outcome = SystemExit 1,
                 trace = [Printed (loading (argv ! 1)), Load (argv ! 1) None,
                          Printed (error_line m)],
                 world = w1\<rparr>)
       \<or> (\<exists>f w1 e w2. con (loading (argv ! 1)) = None
            \<and> TTFont lib (argv ! 1) w = (Inr f, w1)
            \<and> con removing = None
            \<and> removeOverlaps lib f w1 = (Inl e, w2)
            \<and> main con lib argv w =
                \<lparr>outcome = ending e,
                 trace = [Printed (loading (argv ! 1)), Load (argv ! 1) None,
                          Printed removing, RemoveOverlaps (Some e)] @ report e,
                 world = w2\<rparr>)
       \<or> (\<exists>f w1 f' w2 m. con (loading (argv ! 1)) = None
            \<and> TTFont lib (argv ! 1) w = (Inr f, w1)
            \<and> con removing = None
            \<and> removeOverlaps lib f w1 = (Inr f', w2)
            \<and> con (saving (argv ! 2)) = Some m
            \<and> main con lib argv w =
                \<lparr>outcome = SystemExit 1,
                 trace = [Printed (loading (argv ! 1)), Load (argv ! 1) None,
                          Printed removing, RemoveOverlaps None, Printed (error_line m)],
                 world = w2\<rparr>)
       \<or> (\<exists>f w1 f' w2 e w3. con (loading (argv ! 1)) = None
            \<and> TTFont lib (argv ! 1) w = (Inr f, w1)
            \<and> con removing = None
            \<and> removeOverlaps lib f w1 = (Inr f', w2)
            \<and> con (saving (argv ! 2)) = None
            \<and> save lib f' (argv ! 2) w2 = (Inl e, w3)
            \<and> main con lib argv w =
                \<lparr>outcome = ending e,
                 trace = [Printed (loading (argv ! 1)), Load (argv ! 1) None,
                          Printed removing, RemoveOverlaps None,
                          Printed (saving (argv ! 2)), Save (argv ! 2) (Some e)] @ report e,
                 world = w3\<rparr>)
       \<or> (\<exists>f w1 f' w2 w3 m. con (loading (argv ! 1)) = None
            \<and> TTFont lib (argv ! 1) w = (Inr f, w1)
            \<and> con removing = None
            \<and> removeOverlaps lib f w1 = (Inr f', w2)
            \<and> con (saving (argv ! 2)) = None
            \<and> save lib f' (argv ! 2) w2 = (Inr (), w3)
            \<and> con finished = Some m
            \<and> main con lib argv w =
                \<lparr>outcome = SystemExit 1,
                 trace = [Printed (loading (argv ! 1)), Load (argv ! 1) None,
                          Printed removing, RemoveOverlaps None,
                          Printed (saving (argv ! 2)), Save (argv ! 2) None,
                          Printed (error_line m)],
                 world = w3\<rparr>)
       \<or> (\<exists>f w1 f' w2 w3. con (loading (argv ! 1)) = None
            \<and> TTFont lib (argv ! 1) w = (Inr f, w1)
            \<and> con removing = None
            \<and> removeOverlaps lib f w1 = (Inr f', w2)
            \<and> con (saving (argv ! 2)) = None
            \<and> save lib f' (argv ! 2) w2 = (Inr (), w3)
            \<and> con finished = None
            \<and> main con lib argv w =
                \<lparr>outcome = Returned,
                 trace = [Printed (loading (argv ! 1)), Load (argv ! 1) None,
                          Printed removing, RemoveOverlaps None,
                          Printed (saving (argv ! 2)), Save (argv ! 2) None,
                          Printed finished],
                 world = w3\<rparr>)"
proof (cases "con (loading (argv ! 1))")
  case (Some m)
  from main_loading_print_raises [where con = con and argv = argv and lib = lib and w = w, OF assms Some] Some show ?thesis by simp
next
  case p1: None
  obtain a w1 where l: "TTFont lib (argv ! 1) w = (a, w1)"
    by (cases "TTFont lib (argv ! 1) w")
  show ?thesis
  proof (cases a)
    case (Inl e)
    with l have l': "TTFont lib (argv ! 1) w = (Inl e, w1)" by simp
    from main_load_raises [where con = con and argv = argv and lib = lib and w = w, OF assms p1 l'] p1 l' show ?thesis by simp
  next
    case (Inr f)
    with l have l': "TTFont lib (argv ! 1) w = (Inr f, w1)" by simp
    show ?thesis
    proof (cases "con removing")
      case (Some m)
      from main_removing_print_raises [where con = con and argv = argv and lib = lib and w = w, OF assms p1 l' Some] p1 l' Some show ?thesis by simp
    next
      case p2: None
      obtain b w2 where r: "removeOverlaps lib f w1 = (b, w2)"
        by (cases "removeOverlaps lib f w1")
      show ?thesis
      proof (cases b)
        case (Inl e)
        with r have r': "removeOverlaps lib f w1 = (Inl e, w2)" by simp
        from main_overlaps_raise [where con = con and argv = argv and lib = lib and w = w, OF assms p1 l' p2 r'] p1 l' p2 r' show ?thesis by simp
      next
        case (Inr f')
        with r have r': "removeOverlaps lib f w1 = (Inr f', w2)" by simp
        show ?thesis
        proof (cases "con (saving (argv ! 2))")
          case (Some m)
          from main_saving_print_raises [where con = con and argv = argv and lib = lib and w = w, OF assms p1 l' p2 r' Some] p1 l' p2 r' Some
          show ?thesis by simp
        next
          case p3: None
          obtain c w3 where s: "save lib f' (argv ! 2) w2 = (c, w3)"
            by (cases "save lib f' (argv ! 2) w2")
          show ?thesis
          proof (cases c)
            case (Inl e)
            with s have s': "save lib f' (argv ! 2) w2 = (Inl e, w3)" by simp
            from main_save_raises [where con = con and argv = argv and lib = lib and w = w, OF assms p1 l' p2 r' p3 s'] p1 l' p2 r' p3 s'
            show ?thesis by simp
          next
            case (Inr u)
            with s have s': "save lib f' (argv ! 2) w2 = (Inr (), w3)" by simp
            show ?thesis
            proof (cases "con finished")
              case (Some m)
              from main_finished_print_raises [where con = con and argv = argv and lib = lib and w = w, OF assms p1 l' p2 r' p3 s' Some]
                p1 l' p2 r' p3 s' Some
              show ?thesis by simp
            next
              case p4: None
              from main_saved [where con = con and argv = argv and lib = lib and w = w, OF assms p1 l' p2 r' p3 s' p4] p1 l' p2 r' p3 s' p4
              show ?thesis by simp
            qed
          qed
        qed
      qed
    qed
  qed
qed

text \<open>
  A save among the events of a run: it is on the output path, it follows a load and an
  overlap removal that succeeded, it is what the library's save returned for the document
  that overlap removal returned, the run ends with the filesystem the save left, and no
  library call follows it.
\<close>

lemma save_event:
  assumes "length argv = 3"
    and "Save p r \<in> set (trace (main con lib argv w))"
  shows "p = argv ! 2
       \<and> (\<exists>f w1 f' w2 res post.
             TTFont lib (argv ! 1) w = (Inr f, w1)
             \<and> removeOverlaps lib f w1 = (Inr f', w2)
             \<and> save lib f' (argv ! 2) w2 = (res, world (main con lib argv w))
             \<and> r = exception_of res
             \<and> trace (main con lib argv w) =
                 [Printed (loading (argv ! 1)), Load (argv ! 1) None,
                  Printed removing, RemoveOverlaps None, Printed (saving (argv ! 2))]
                 @ Save (argv ! 2) r # post
             \<and> calls post = [])"
  using run_shapes [where con = con and lib = lib and w = w and argv = argv, OF assms(1)] assms(2)
  by (elim disjE exE conjE) (simp_all add: calls_def split: if_splits)

section \<open>Wrong argument count\<close>

text \<open>
  C2. When the number of positional arguments (\<^verbatim>\<open>sys.argv\<close> without the script name) is
  not two, the run prints the usage message and nothing else, exits with code 1, leaves
  the filesystem as it was and invokes no library operation.
\<close>

theorem usage_on_wrong_argument_count:
  assumes "length (tl argv) \<noteq> 2"
  shows "stdout (trace (main con lib argv w)) = [usage]
       \<and> exit_code (outcome (main con lib argv w)) = Some 1
       \<and> world (main con lib argv w) = w
       \<and> calls (trace (main con lib argv w)) = []"
proof -
  from assms have "length argv \<noteq> 3" by auto
  then have "main con lib argv w
               = \<lparr>outcome = SystemExit 1, trace = [Printed usage], world = w\<rparr>"
    by (simp add: main_def)
  then show ?thesis by (simp add: calls_def)
qed

theorem usage_on_wrong_argument_count_witness:
  "length (tl [''process_font.py'', ''in.ttf'']) \<noteq> 2
   \<and> stdout (trace (main accepting (stub None None None) [''process_font.py'', ''in.ttf''] demo_fs))
       = [usage]
   \<and> exit_code (outcome (main accepting (stub None None None) [''process_font.py'', ''in.ttf'']
                           demo_fs)) = Some 1
   \<and> world (main accepting (stub None None None) [''process_font.py'', ''in.ttf''] demo_fs)
       = demo_fs
   \<and> calls (trace (main accepting (stub None None None) [''process_font.py'', ''in.ttf''] demo_fs))
       = []"
  using usage_on_wrong_argument_count
    [where argv = "[''process_font.py'', ''in.ttf'']" and lib = "stub None None None"
       and w = demo_fs and con = accepting]
  by simp

section \<open>Failures that the handler reports\<close>




section \<open>What the handler catches\<close>

text \<open>
  C9. When a library call of the run raises an exception that is not an instance of
  \<^verbatim>\<open>Exception\<close>, that exception leaves \<^verbatim>\<open>main\<close>, and no printed line starts with
  \<^verbatim>\<open>Error processing font:\<close>.
\<close>

theorem non_exception_propagates:
  assumes "c \<in> set (trace (main con lib argv w))"
    and "failure c = Some (NonException m)"
  shows "outcome (main con lib argv w) = Raised (NonException m)
       \<and> (\<forall>s \<in> set (stdout (trace (main con lib argv w))).
             \<not> prefix ''Error processing font:'' s)"
proof (cases "length argv = 3")
  case False
  with assms show ?thesis by (auto simp: main_usage)
next
  case True
  from run_shapes [where con = con and lib = lib and w = w and argv = argv, OF True] assms
  show ?thesis
    by (elim disjE exE conjE) (auto split: if_splits)
qed

theorem non_exception_propagates_witness:
  "RemoveOverlaps (Some (NonException ''KeyboardInterrupt''))
     \<in> set (trace (main accepting (stub None (Some (NonException ''KeyboardInterrupt'')) None)
                      demo_argv demo_fs))
   \<and> failure (RemoveOverlaps (Some (NonException ''KeyboardInterrupt'')))
       = Some (NonException ''KeyboardInterrupt'')
   \<and> outcome (main accepting (stub None (Some (NonException ''KeyboardInterrupt'')) None)
                demo_argv demo_fs)
       = Raised (NonException ''KeyboardInterrupt'')
   \<and> ''-- Loading font: in.ttf''
       \<in> set (stdout (trace (main accepting (stub None (Some (NonException ''KeyboardInterrupt'')) None)
                                 demo_argv demo_fs)))
   \<and> \<not> prefix ''Error processing font:'' ''-- Loading font: in.ttf''"
proof -
  let ?lib = "stub None (Some (NonException ''KeyboardInterrupt'')) None"
  have a: "RemoveOverlaps (Some (NonException ''KeyboardInterrupt''))
             \<in> set (trace (main accepting ?lib demo_argv demo_fs))"
    by (simp add: main_def try_body_def print_py_def accepting_def Let_def stub_def
          demo_argv_def demo_fs_def)
  have b: "failure (RemoveOverlaps (Some (NonException ''KeyboardInterrupt'')))
             = Some (NonException ''KeyboardInterrupt'')"
    by simp
  have c: "''-- Loading font: in.ttf'' \<in> set (stdout (trace (main accepting ?lib demo_argv demo_fs)))"
    by (simp add: main_def try_body_def print_py_def accepting_def Let_def stub_def
          demo_argv_def demo_fs_def)
  from non_exception_propagates [where con = accepting, OF a b] a b c show ?thesis by blast
qed

section \<open>Save comes last\<close>



section \<open>A save that fails\<close>

text \<open>
  C6. When load and overlap removal succeed and save raises (whatever it raises), the run
  ends with the filesystem exactly as the failed save left it, so the output path holds
  what save had written there; after the failed save the driver invokes no further
  operation, in particular none that deletes or truncates the file. The first half
  starts from what the library returns, for a run whose three status lines were
  printed; the second half starts from a failed save among the calls of the run.
\<close>

theorem failed_save_leaves_output_as_written:
  "(length (tl argv) = 2
      \<and> con (''-- Loading font: '' @ argv ! 1) = None
      \<and> con ''-- Removing overlaps (this may take a moment)...'' = None
      \<and> con (''-- Saving to: '' @ argv ! 2) = None
      \<and> TTFont lib (argv ! 1) w = (Inr f, wa)
      \<and> removeOverlaps lib f wa = (Inr f', wb)
      \<and> save lib f' (argv ! 2) wb = (Inl e, wc) \<longrightarrow>
        world (main con lib argv w) = wc
        \<and> world (main con lib argv w) (argv ! 2) = wc (argv ! 2)
        \<and> (\<exists>pre post. trace (main con lib argv w) = pre @ Save (argv ! 2) (Some e) # post
                       \<and> calls post = []))
   \<and> (\<forall>p x. Save p (Some x) \<in> set (trace (main con lib argv w)) \<longrightarrow>
        p = argv ! 2
        \<and> (\<exists>g v1 g' v2 v3.
              TTFont lib (argv ! 1) w = (Inr g, v1)
              \<and> removeOverlaps lib g v1 = (Inr g', v2)
              \<and> save lib g' (argv ! 2) v2 = (Inl x, v3)
              \<and> world (main con lib argv w) = v3)
        \<and> (\<exists>pre post. trace (main con lib argv w) = pre @ Save p (Some x) # post
                       \<and> calls post = []))"
proof -
  have a: "world (main con lib argv w) = wc
        \<and> world (main con lib argv w) (argv ! 2) = wc (argv ! 2)
        \<and> (\<exists>pre post. trace (main con lib argv w) = pre @ Save (argv ! 2) (Some e) # post
                       \<and> calls post = [])"
    if "length (tl argv) = 2"
      and "con (''-- Loading font: '' @ argv ! 1) = None"
      and "con ''-- Removing overlaps (this may take a moment)...'' = None"
      and "con (''-- Saving to: '' @ argv ! 2) = None"
      and "TTFont lib (argv ! 1) w = (Inr f, wa)"
      and "removeOverlaps lib f wa = (Inr f', wb)"
      and "save lib f' (argv ! 2) wb = (Inl e, wc)"
  proof -
    from that(1) have len: "length argv = 3" by (simp add: two_positional)
    note run = main_save_raises [where con = con and argv = argv,
                 OF len that(2) that(5) that(3) that(6) that(4) that(7)]
    have wd: "world (main con lib argv w) = wc" by (simp add: run)
    have "trace (main con lib argv w) =
            [Printed (''-- Loading font: '' @ argv ! 1), Load (argv ! 1) None,
             Printed ''-- Removing overlaps (this may take a moment)...'', RemoveOverlaps None,
             Printed (''-- Saving to: '' @ argv ! 2)]
            @ Save (argv ! 2) (Some e) # report e"
      by (simp add: run)
    moreover have "calls (report e) = []"
      by (simp add: calls_def)
    ultimately have "\<exists>pre post. trace (main con lib argv w) = pre @ Save (argv ! 2) (Some e) # post
                        \<and> calls post = []"
      by blast
    with wd show ?thesis by simp
  qed
  have b: "p = argv ! 2
        \<and> (\<exists>g v1 g' v2 v3.
              TTFont lib (argv ! 1) w = (Inr g, v1)
              \<and> removeOverlaps lib g v1 = (Inr g', v2)
              \<and> save lib g' (argv ! 2) v2 = (Inl x, v3)
              \<and> world (main con lib argv w) = v3)
        \<and> (\<exists>pre post. trace (main con lib argv w) = pre @ Save p (Some x) # post
                       \<and> calls post = [])"
    if ev: "Save p (Some x) \<in> set (trace (main con lib argv w))" for p x
  proof (cases "length argv = 3")
    case False
    with ev show ?thesis by (simp add: main_usage)
  next
    case True
    from save_event [where con = con and argv = argv and lib = lib and w = w, OF True ev]
    obtain g v1 g' v2 res post where p: "p = argv ! 2"
      and l: "TTFont lib (argv ! 1) w = (Inr g, v1)"
      and r: "removeOverlaps lib g v1 = (Inr g', v2)"
      and s: "save lib g' (argv ! 2) v2 = (res, world (main con lib argv w))"
      and x: "Some x = exception_of res"
      and t: "trace (main con lib argv w) =
                [Printed (loading (argv ! 1)), Load (argv ! 1) None,
                 Printed removing, RemoveOverlaps None, Printed (saving (argv ! 2))]
                @ Save (argv ! 2) (Some x) # post"
      and c: "calls post = []"
      by blast
    from x have "res = Inl x" by (cases res) simp_all
    with s have s': "save lib g' (argv ! 2) v2 = (Inl x, world (main con lib argv w))" by simp
    from t c p have "\<exists>pre post. trace (main con lib argv w) = pre @ Save p (Some x) # post
                        \<and> calls post = []"
      by blast
    with p l r s' show ?thesis by blast
  qed
  from a b show ?thesis by blast
qed

theorem failed_save_leaves_output_as_written_witness:
  "world (main accepting (stub None None (Some (Exception ''No space left on device'')))
            demo_argv demo_fs)
     = demo_fs(''out.ttf'' \<mapsto> ''g'')
   \<and> world (main accepting (stub None None (Some (Exception ''No space left on device'')))
              demo_argv demo_fs)
       ''out.ttf'' = Some ''g''"
proof -
  let ?lib = "stub None None (Some (Exception ''No space left on device''))"
  have a: "length (tl demo_argv) = 2" by (simp add: demo_argv_def)
  have p1: "accepting (''-- Loading font: '' @ demo_argv ! 1) = None" by (simp add: accepting_def)
  have p2: "accepting ''-- Removing overlaps (this may take a moment)...'' = None"
    by (simp add: accepting_def)
  have p3: "accepting (''-- Saving to: '' @ demo_argv ! 2) = None" by (simp add: accepting_def)
  have b: "TTFont ?lib (demo_argv ! 1) demo_fs = (Inr ''glyff'', demo_fs)"
    by (simp add: stub_def demo_argv_def demo_fs_def)
  have c: "removeOverlaps ?lib ''glyff'' demo_fs = (Inr ''glyf'', demo_fs)"
    by (simp add: stub_def)
  have d: "save ?lib ''glyf'' (demo_argv ! 2) demo_fs
             = (Inl (Exception ''No space left on device''), demo_fs(''out.ttf'' \<mapsto> ''g''))"
    by (simp add: stub_def demo_argv_def)
  have n2: "demo_argv ! 2 = ''out.ttf''" by (simp add: demo_argv_def)
  note first = failed_save_leaves_output_as_written
    [where con = accepting and lib = ?lib and argv = demo_argv and w = demo_fs
       and f = "''glyff''" and wa = demo_fs and f' = "''glyf''" and wb = demo_fs
       and e = "Exception ''No space left on device''"
       and wc = "demo_fs(''out.ttf'' \<mapsto> ''g'')", THEN conjunct1]
  from first a p1 p2 p3 b c d
  have "world (main accepting ?lib demo_argv demo_fs) = demo_fs(''out.ttf'' \<mapsto> ''g'')
      \<and> world (main accepting ?lib demo_argv demo_fs) (demo_argv ! 2)
          = (demo_fs(''out.ttf'' \<mapsto> ''g'')) (demo_argv ! 2)"
    by blast
  then show ?thesis by (simp add: n2)
qed

section \<open>A successful save\<close>






section \<open>The same path twice\<close>




section \<open>The order of the steps\<close>

lemma calls_in_order:
  assumes "length argv = 3"
  shows "\<exists>r1 r2 r3. prefix (calls (trace (main con lib argv w)))
                      [Load (argv ! 1) r1, RemoveOverlaps r2, Save (argv ! 2) r3]"
  using run_shapes [where con = con and lib = lib and w = w and argv = argv, OF assms]
  by (elim disjE exE conjE) (auto simp: calls_def split: if_splits)

lemma earlier_calls_succeeded:
  assumes "length argv = 3"
  shows "\<forall>c \<in> set (butlast (calls (trace (main con lib argv w)))). failure c = None"
  using run_shapes [where con = con and lib = lib and w = w and argv = argv, OF assms]
  by (elim disjE exE conjE) (auto simp: calls_def split: if_splits)

lemma status_before_load:
  assumes "length argv = 3"
  shows "\<forall>pre p r post. trace (main con lib argv w) = pre @ Load p r # post \<longrightarrow>
           pre \<noteq> [] \<and> last pre = Printed (loading p)"
  using run_shapes [where con = con and lib = lib and w = w and argv = argv, OF assms]
  by (elim disjE exE conjE) (auto simp: Cons_eq_append_conv split: if_splits)

lemma status_before_overlap_removal:
  assumes "length argv = 3"
  shows "\<forall>pre r post. trace (main con lib argv w) = pre @ RemoveOverlaps r # post \<longrightarrow>
           pre \<noteq> [] \<and> last pre = Printed removing"
  using run_shapes [where con = con and lib = lib and w = w and argv = argv, OF assms]
  by (elim disjE exE conjE) (auto simp: Cons_eq_append_conv split: if_splits)

lemma status_before_save:
  assumes "length argv = 3"
  shows "\<forall>pre p r post. trace (main con lib argv w) = pre @ Save p r # post \<longrightarrow>
           pre \<noteq> [] \<and> last pre = Printed (saving p)"
  using run_shapes [where con = con and lib = lib and w = w and argv = argv, OF assms]
  by (elim disjE exE conjE) (auto simp: Cons_eq_append_conv split: if_splits)

lemma done_after_successful_save:
  assumes "length argv = 3"
  shows "\<forall>pre post. trace (main con lib argv w) = pre @ Printed finished # post \<longrightarrow>
           pre \<noteq> [] \<and> last pre = Save (argv ! 2) None"
  using run_shapes [where con = con and lib = lib and w = w and argv = argv, OF assms]
  by (elim disjE exE conjE) (auto simp: Cons_eq_append_conv split: if_splits)

lemma load_is_the_library_load:
  assumes "length argv = 3"
  shows "\<forall>p r. Load p r \<in> set (trace (main con lib argv w)) \<longrightarrow>
           p = argv ! 1 \<and> r = exception_of (fst (TTFont lib (argv ! 1) w))"
  using run_shapes [where con = con and lib = lib and w = w and argv = argv, OF assms]
  by (elim disjE exE conjE) (auto split: if_splits)

lemma overlap_removal_is_the_library_one:
  assumes "length argv = 3"
  shows "\<forall>r. RemoveOverlaps r \<in> set (trace (main con lib argv w)) \<longrightarrow>
           (\<exists>f wa. TTFont lib (argv ! 1) w = (Inr f, wa)
                   \<and> r = exception_of (fst (removeOverlaps lib f wa)))"
  using run_shapes [where con = con and lib = lib and w = w and argv = argv, OF assms]
  by (elim disjE exE conjE) (auto split: if_splits)

lemma save_is_the_library_save:
  assumes "length argv = 3"
  shows "\<forall>p r. Save p r \<in> set (trace (main con lib argv w)) \<longrightarrow>
           p = argv ! 2
           \<and> (\<exists>f wa f' wb. TTFont lib (argv ! 1) w = (Inr f, wa)
                   \<and> removeOverlaps lib f wa = (Inr f', wb)
                   \<and> r = exception_of (fst (save lib f' (argv ! 2) wb)))"
  using run_shapes [where con = con and lib = lib and w = w and argv = argv, OF assms]
  by (elim disjE exE conjE) (auto split: if_splits)

lemma load_follows_its_status_line:
  assumes "length argv = 3"
  shows "con (loading (argv ! 1)) = None \<longrightarrow>
           (\<exists>r. Load (argv ! 1) r \<in> set (trace (main con lib argv w)))"
  using run_shapes [where con = con and lib = lib and w = w and argv = argv, OF assms]
  by (elim disjE exE conjE) (auto split: if_splits)

lemma overlap_removal_follows_load:
  assumes "length argv = 3"
  shows "Load (argv ! 1) None \<in> set (trace (main con lib argv w)) \<and> con removing = None \<longrightarrow>
           (\<exists>r. RemoveOverlaps r \<in> set (trace (main con lib argv w)))"
  using run_shapes [where con = con and lib = lib and w = w and argv = argv, OF assms]
  by (elim disjE exE conjE) (auto split: if_splits)

lemma save_follows_overlap_removal:
  assumes "length argv = 3"
  shows "RemoveOverlaps None \<in> set (trace (main con lib argv w))
           \<and> con (saving (argv ! 2)) = None \<longrightarrow>
           (\<exists>r. Save (argv ! 2) r \<in> set (trace (main con lib argv w)))"
  using run_shapes [where con = con and lib = lib and w = w and argv = argv, OF assms]
  by (elim disjE exE conjE) (auto split: if_splits)

lemma done_follows_save:
  assumes "length argv = 3"
  shows "Save (argv ! 2) None \<in> set (trace (main con lib argv w)) \<and> con finished = None \<longrightarrow>
           Printed finished \<in> set (trace (main con lib argv w))"
  using run_shapes [where con = con and lib = lib and w = w and argv = argv, OF assms]
  by (elim disjE exE conjE) (auto split: if_splits)

text \<open>
  C3. In a run with two positional arguments:
  \<^item> the library operations invoked are a load, then an overlap removal, then a save,
    each at most once and in this order, and every one but the last invoked has
    succeeded;
  \<^item> each of the three comes right after its own status line, and the completion line,
    when printed, comes right after a save that succeeded;
  \<^item> each event is what the library did: the load is \<^verbatim>\<open>TTFont\<close> on the input path, the
    overlap removal is applied to the document that the load returned, the save writes
    the document that the overlap removal returned to the output path, and each event
    carries the exception that this call raised;
  \<^item> nothing is skipped: once a status line is printed its step is invoked, and a step
    that succeeded is followed by the next one when the next status line is printed.
\<close>

theorem steps_in_order_with_status_lines:
  assumes "length (tl argv) = 2"
  shows "(\<exists>r1 r2 r3. prefix (calls (trace (main con lib argv w)))
                      [Load (argv ! 1) r1, RemoveOverlaps r2, Save (argv ! 2) r3])
       \<and> (\<forall>c \<in> set (butlast (calls (trace (main con lib argv w)))). failure c = None)
       \<and> (\<forall>pre p r post. trace (main con lib argv w) = pre @ Load p r # post \<longrightarrow>
             pre \<noteq> [] \<and> last pre = Printed (loading p))
       \<and> (\<forall>pre r post. trace (main con lib argv w) = pre @ RemoveOverlaps r # post \<longrightarrow>
             pre \<noteq> [] \<and> last pre = Printed removing)
       \<and> (\<forall>pre p r post. trace (main con lib argv w) = pre @ Save p r # post \<longrightarrow>
             pre \<noteq> [] \<and> last pre = Printed (saving p))
       \<and> (\<forall>pre post. trace (main con lib argv w) = pre @ Printed finished # post \<longrightarrow>
             pre \<noteq> [] \<and> last pre = Save (argv ! 2) None)
       \<and> (\<forall>p r. Load p r \<in> set (trace (main con lib argv w)) \<longrightarrow>
             p = argv ! 1 \<and> r = exception_of (fst (TTFont lib (argv ! 1) w)))
       \<and> (\<forall>r. RemoveOverlaps r \<in> set (trace (main con lib argv w)) \<longrightarrow>
             (\<exists>f wa. TTFont lib (argv ! 1) w = (Inr f, wa)
                     \<and> r = exception_of (fst (removeOverlaps lib f wa))))
       \<and> (\<forall>p r. Save p r \<in> set (trace (main con lib argv w)) \<longrightarrow>
             p = argv ! 2
             \<and> (\<exists>f wa f' wb. TTFont lib (argv ! 1) w = (Inr f, wa)
                     \<and> removeOverlaps lib f wa = (Inr f', wb)
                     \<and> r = exception_of (fst (save lib f' (argv ! 2) wb))))
       \<and> (con (loading (argv ! 1)) = None \<longrightarrow>
             (\<exists>r. Load (argv ! 1) r \<in> set (trace (main con lib argv w))))
       \<and> (Load (argv ! 1) None \<in> set (trace (main con lib argv w)) \<and> con removing = None \<longrightarrow>
             (\<exists>r. RemoveOverlaps r \<in> set (trace (main con lib argv w))))
       \<and> (RemoveOverlaps None \<in> set (trace (main con lib argv w))
             \<and> con (saving (argv ! 2)) = None \<longrightarrow>
             (\<exists>r. Save (argv ! 2) r \<in> set (trace (main con lib argv w))))
       \<and> (Save (argv ! 2) None \<in> set (trace (main con lib argv w)) \<and> con finished = None \<longrightarrow>
             Printed finished \<in> set (trace (main con lib argv w)))"
proof -
  from assms have len: "length argv = 3" by (simp add: two_positional)
  note c1 = calls_in_order [where con = con and lib = lib and w = w and argv = argv, OF len]
  note c2 = earlier_calls_succeeded [where con = con and lib = lib and w = w and argv = argv, OF len]
  note c3 = status_before_load [where con = con and lib = lib and w = w and argv = argv, OF len]
  note c4 = status_before_overlap_removal
    [where con = con and lib = lib and w = w and argv = argv, OF len]
  note c5 = status_before_save [where con = con and lib = lib and w = w and argv = argv, OF len]
  note c6 = done_after_successful_save
    [where con = con and lib = lib and w = w and argv = argv, OF len]
  note c7 = load_is_the_library_load
    [where con = con and lib = lib and w = w and argv = argv, OF len]
  note c8 = overlap_removal_is_the_library_one
    [where con = con and lib = lib and w = w and argv = argv, OF len]
  note c9 = save_is_the_library_save
    [where con = con and lib = lib and w = w and argv = argv, OF len]
  note c10 = load_follows_its_status_line
    [where con = con and lib = lib and w = w and argv = argv, OF len]
  note c11 = overlap_removal_follows_load
    [where con = con and lib = lib and w = w and argv = argv, OF len]
  note c12 = save_follows_overlap_removal
    [where con = con and lib = lib and w = w and argv = argv, OF len]
  note c13 = done_follows_save [where con = con and lib = lib and w = w and argv = argv, OF len]
  from c1 c2 c3 c4 c5 c6 c7 c8 c9 c10 c11 c12 c13 show ?thesis by (intro conjI)
qed

theorem steps_in_order_with_status_lines_witness:
  "length (tl demo_argv) = 2
   \<and> trace (main accepting (stub None None None) demo_argv demo_fs)
       = [Printed ''-- Loading font: in.ttf'', Load ''in.ttf'' None,
          Printed ''-- Removing overlaps (this may take a moment)...'', RemoveOverlaps None,
          Printed ''-- Saving to: out.ttf'']
         @ Save ''out.ttf'' None # [Printed ''-- Done.'']
   \<and> last [Printed ''-- Loading font: in.ttf'', Load ''in.ttf'' None,
            Printed ''-- Removing overlaps (this may take a moment)...'', RemoveOverlaps None,
            Printed ''-- Saving to: out.ttf'']
       = Printed (''-- Saving to: '' @ ''out.ttf'')"
proof -
  let ?pre = "[Printed ''-- Loading font: in.ttf'', Load ''in.ttf'' None,
               Printed ''-- Removing overlaps (this may take a moment)...'', RemoveOverlaps None,
               Printed ''-- Saving to: out.ttf'']"
  have a: "length (tl demo_argv) = 2" by (simp add: demo_argv_def)
  have t: "trace (main accepting (stub None None None) demo_argv demo_fs)
             = ?pre @ Save ''out.ttf'' None # [Printed ''-- Done.'']"
    by (simp add: main_def try_body_def print_py_def accepting_def Let_def stub_def
          demo_argv_def demo_fs_def)
  note fifth = steps_in_order_with_status_lines
    [where con = accepting and lib = "stub None None None" and w = demo_fs and argv = demo_argv,
     OF a, THEN conjunct2, THEN conjunct2, THEN conjunct2, THEN conjunct2, THEN conjunct1]
  from fifth t have "last ?pre = Printed (''-- Saving to: '' @ ''out.ttf'')" by blast
  with a t show ?thesis by blast
qed

section \<open>Determinism\<close>




end
